theory Spec2Isabelle
  imports Complex_Main "HOL-Library.Log_Nat"
begin

section \<open>Position sizing, trade validation, the portfolio ledger and its statistics\<close>

text \<open>
  A shallow embedding of \<^verbatim>\<open>proba.py\<close>: the \<^verbatim>\<open>RiskManagement\<close> class, the ledger
  operations of \<^verbatim>\<open>PortfolioTracker\<close> and \<^verbatim>\<open>PositionCalculator\<close> on the \<^verbatim>\<open>portfolio\<close>
  table, \<^verbatim>\<open>MarketDataManager.calculate_atr\<close> with the stop-loss suggestion built on it,
  and \<^verbatim>\<open>StatisticsTab.calculate_statistics\<close>. The file does not parse as it stands: the
  bodies of \<^verbatim>\<open>execute_partial_close\<close> and \<^verbatim>\<open>calculate_position\<close> are not indented
  under their \<^verbatim>\<open>def\<close>, the methods that follow them start in the first column, and a
  stray markup line precedes the \<^verbatim>\<open>finally\<close> of \<^verbatim>\<open>calculate_statistics\<close>. Each is
  read as the method of the class it sits in, with the body its statements form.

  Prices and money amounts are Python floats (IEEE binary64 doubles, SQLite \<^verbatim>\<open>REAL\<close>) in
  the source. A finite double is the real number it denotes. In \<^verbatim>\<open>calculate_position_size\<close>,
  \<^verbatim>\<open>validate_trade\<close> and the stop-loss suggestion every float operation is modelled with
  its rounding, overflow and special values (next subsection); the risk metrics, the
  ledger and the statistics compute their sums and products exactly, with
  \<^verbatim>\<open>float('inf')\<close> for the profit factor and pandas' NaN for the ATR as explicit
  constructors. Quantities are Python ints (SQLite \<^verbatim>\<open>INTEGER\<close>), modelled as
  \<^typ>\<open>int\<close>.
\<close>

subsection \<open>Python floats\<close>

text \<open>
  A float is NaN, an infinity or a finite double, given by the real it denotes (the sign
  of a zero is not kept: no operation below depends on it).
\<close>

datatype py_float = NaN | Num real | PInf | NInf

text \<open>\<open>pow2 k\<close> is 2 to the power \<open>k\<close>, for any integer \<open>k\<close>.\<close>

definition pow2 :: "int \<Rightarrow> real" where
  "pow2 k = (if 0 \<le> k then 2 ^ nat k else 1 / 2 ^ nat (- k))"

text \<open>
  The exponent of the binade of a non-zero \<open>x\<close>: the \<open>e\<close> with
  \<open>2\<^sup>e \<le> \<bar>x\<bar> < 2\<^sup>e\<^sup>+\<^sup>1\<close>, and -1022 below the normal range.
\<close>

definition binade :: "real \<Rightarrow> int" where
  "binade x = max (- 1022)
     (if 1 \<le> \<bar>x\<bar> then bitlen \<lfloor>\<bar>x\<bar>\<rfloor> - 1 else - bitlen (\<lceil>1 / \<bar>x\<bar>\<rceil> - 1))"

text \<open>Rounding to the nearest integer, a tie going to the even one.\<close>

definition round_half_even :: "real \<Rightarrow> int" where
  "round_half_even z =
     (let f = \<lfloor>z\<rfloor>; d = z - real_of_int f
      in if d < 1 / 2 then f else if 1 / 2 < d then f + 1
         else if even f then f else f + 1)"

text \<open>
  The double that an exact result \<open>x\<close> is rounded to: the nearest multiple of the unit in
  the last place of its binade (53 significant bits), ties to even, and an infinity from
  \<open>2\<^sup>1\<^sup>0\<^sup>2\<^sup>4\<close> on.
\<close>

definition to_double :: "real \<Rightarrow> py_float" where
  "to_double x =
     (if x = 0 then Num 0
      else (let u = pow2 (binade x - 52);
                y = real_of_int (round_half_even (x / u)) * u
            in if 2 ^ 1024 \<le> \<bar>y\<bar> then (if 0 < x then PInf else NInf) else Num y))"

text \<open>
  The double that a decimal literal or \<^verbatim>\<open>float(text)\<close> denotes, for a decimal \<open>x\<close> within
  the range of the doubles.
\<close>

definition dbl :: "real \<Rightarrow> real" where
  "dbl x = (case to_double x of Num y \<Rightarrow> y | _ \<Rightarrow> 0)"

definition pf_sign :: "py_float \<Rightarrow> int" where
  "pf_sign x = (case x of
                  Num a \<Rightarrow> (if 0 < a then 1 else if a < 0 then - 1 else 0)
                | PInf \<Rightarrow> 1 | NInf \<Rightarrow> - 1 | NaN \<Rightarrow> 0)"

definition signed_inf :: "int \<Rightarrow> py_float" where
  "signed_inf s = (if 0 < s then PInf else if s < 0 then NInf else NaN)"

text \<open>
  The float operations of the source. Each one on finite operands is the exact result
  rounded by \<open>to_double\<close>; the other equations are the IEEE rules for NaN and the
  infinities.
\<close>

fun pf_mul :: "py_float \<Rightarrow> py_float \<Rightarrow> py_float" where
  "pf_mul (Num a) (Num b) = to_double (a * b)"
| "pf_mul NaN _ = NaN"
| "pf_mul _ NaN = NaN"
| "pf_mul x y = signed_inf (pf_sign x * pf_sign y)"

fun pf_add :: "py_float \<Rightarrow> py_float \<Rightarrow> py_float" where
  "pf_add (Num a) (Num b) = to_double (a + b)"
| "pf_add NaN _ = NaN"
| "pf_add _ NaN = NaN"
| "pf_add PInf NInf = NaN"
| "pf_add NInf PInf = NaN"
| "pf_add PInf _ = PInf"
| "pf_add _ PInf = PInf"
| "pf_add NInf _ = NInf"
| "pf_add _ NInf = NInf"

fun pf_sub :: "py_float \<Rightarrow> py_float \<Rightarrow> py_float" where
  "pf_sub (Num a) (Num b) = to_double (a - b)"
| "pf_sub NaN _ = NaN"
| "pf_sub _ NaN = NaN"
| "pf_sub PInf PInf = NaN"
| "pf_sub NInf NInf = NaN"
| "pf_sub PInf _ = PInf"
| "pf_sub _ PInf = NInf"
| "pf_sub NInf _ = NInf"
| "pf_sub _ NInf = PInf"

text \<open>
  \<^verbatim>\<open>x / y\<close>: Python raises ZeroDivisionError for a zero divisor, whatever the dividend;
  that is \<open>None\<close>.
\<close>

fun pf_div :: "py_float \<Rightarrow> py_float \<Rightarrow> py_float option" where
  "pf_div x (Num b) =
     (if b = 0 then None
      else (case x of
              Num a \<Rightarrow> Some (to_double (a / b))
            | NaN \<Rightarrow> Some NaN
            | _ \<Rightarrow> Some (signed_inf (pf_sign x * pf_sign (Num b)))))"
| "pf_div NaN _ = Some NaN"
| "pf_div _ NaN = Some NaN"
| "pf_div (Num a) _ = Some (Num 0)"
| "pf_div _ _ = Some NaN"

fun pf_abs :: "py_float \<Rightarrow> py_float" where
  "pf_abs (Num a) = Num \<bar>a\<bar>"
| "pf_abs NaN = NaN"
| "pf_abs _ = PInf"

text \<open>\<^verbatim>\<open>x < y\<close>; \<^verbatim>\<open>x > y\<close> is \<open>pf_less y x\<close>. A comparison with NaN is false.\<close>

fun pf_less :: "py_float \<Rightarrow> py_float \<Rightarrow> bool" where
  "pf_less (Num a) (Num b) = (a < b)"
| "pf_less NaN _ = False"
| "pf_less _ NaN = False"
| "pf_less NInf NInf = False"
| "pf_less NInf _ = True"
| "pf_less _ NInf = False"
| "pf_less PInf _ = False"
| "pf_less _ PInf = True"

text \<open>
  The text \<^verbatim>\<open>f"{x:.2f}"\<close>, given by the number it denotes: a finite double is rounded
  to two decimals, NaN and the infinities print as themselves.
\<close>

fun fixed2 :: "py_float \<Rightarrow> py_float" where
  "fixed2 (Num a) = Num (real_of_int (round_half_even (a * 100)) / 100)"
| "fixed2 x = x"

subsection \<open>RiskManagement\<close>

record risk_management =
  account_balance :: real
  max_risk_per_trade :: real

text \<open>Python's \<^verbatim>\<open>int(x)\<close> on a finite float truncates towards zero.\<close>

definition py_int :: "real \<Rightarrow> int" where
  "py_int x = (if 0 \<le> x then \<lfloor>x\<rfloor> else \<lceil>x\<rceil>)"

text \<open>
  \<^verbatim>\<open>calculate_position_size\<close>. The arguments and the two fields are doubles. On an
  infinite quotient \<^verbatim>\<open>int()\<close> raises OverflowError and on NaN ValueError; the handler
  returns 0. The division itself cannot raise, since a zero \<^verbatim>\<open>risk_per_share\<close> has
  returned before it.
\<close>

definition calculate_position_size :: "risk_management \<Rightarrow> real \<Rightarrow> real \<Rightarrow> int" where
  "calculate_position_size rm entry_price stop_loss =
     (let risk_amount = pf_mul (Num (account_balance rm)) (Num (max_risk_per_trade rm));
          risk_per_share = pf_abs (pf_sub (Num entry_price) (Num stop_loss))
      in if risk_per_share = Num 0 then 0
         else (case pf_div risk_amount risk_per_share of
                 Some (Num q) \<Rightarrow> py_int q
               | _ \<Rightarrow> 0))"

record risk_metrics =
  risk_per_share :: real
  reward_per_share :: real
  total_risk :: real
  total_reward :: real
  risk_reward_ratio :: real
  risk_percentage :: real


text \<open>
  \<^verbatim>\<open>validate_trade\<close> returns a pair \<^verbatim>\<open>(bool, message)\<close>. The three message texts
  and the text built by the exception handler are the constructors of
  \<open>validation_message\<close>; \<open>RiskExceedsMaximum\<close> carries the \<^verbatim>\<open>max_risk\<close> that the
  source formats into the text.
\<close>

datatype validation_message =
    RatioBelowMinimum
  | RiskExceedsMaximum py_float
  | ValidationSuccessful
  | ErrorValidatingTrade

text \<open>
  \<^verbatim>\<open>reward / risk\<close> is a float division: for \<^verbatim>\<open>risk == 0\<close> Python raises
  ZeroDivisionError (also for 0.0 / 0.0), which the \<^verbatim>\<open>except Exception\<close> handler turns
  into \<^verbatim>\<open>(False, "Error validating trade: ...")\<close>. The arguments are doubles.
\<close>

definition validate_trade ::
  "risk_management \<Rightarrow> real \<Rightarrow> real \<Rightarrow> real \<Rightarrow> bool \<times> validation_message" where
  "validate_trade rm entry_price stop_loss take_profit =
     (let risk = pf_abs (pf_sub (Num entry_price) (Num stop_loss));
          reward = pf_abs (pf_sub (Num take_profit) (Num entry_price))
      in case pf_div reward risk of
           None \<Rightarrow> (False, ErrorValidatingTrade)
         | Some ratio \<Rightarrow>
             if pf_less ratio (Num 2) then (False, RatioBelowMinimum)
             else (let max_risk = pf_mul (Num (account_balance rm))
                                    (Num (max_risk_per_trade rm))
                   in if pf_less max_risk risk then (False, RiskExceedsMaximum max_risk)
                      else (True, ValidationSuccessful)))"

text \<open>
  The two quantities that \<^verbatim>\<open>RiskManagement\<close> compares, as the source computes them:
  the risk budget \<^verbatim>\<open>account_balance * max_risk_per_trade\<close> and the distance
  \<^verbatim>\<open>abs(a - b)\<close> between two prices.
\<close>

definition risk_budget :: "risk_management \<Rightarrow> py_float" where
  "risk_budget rm = pf_mul (Num (account_balance rm)) (Num (max_risk_per_trade rm))"

definition price_distance :: "real \<Rightarrow> real \<Rightarrow> py_float" where
  "price_distance a b = pf_abs (pf_sub (Num a) (Num b))"

subsection \<open>The portfolio table\<close>

text \<open>
  One row of the \<^verbatim>\<open>portfolio\<close> table, column by column. \<^verbatim>\<open>NOT NULL\<close> columns hold a
  value, the others an option (\<open>None\<close> is SQL \<^verbatim>\<open>NULL\<close>). \<^verbatim>\<open>trade_type\<close> and
  \<^verbatim>\<open>status\<close> are \<^verbatim>\<open>TEXT\<close> columns compared with string literals in the source, so
  they stay strings. The date columns hold the text
  \<^verbatim>\<open>datetime.now().strftime("%Y-%m-%d %H:%M:%S")\<close>; the model keeps the instant that
  text denotes, in seconds, and every operation that reads the clock takes it as its
  argument \<open>now\<close>.
\<close>

record position =
  row_id :: nat
  symbol :: string
  entry_price :: real
  exit_price :: "real option"
  stop_loss :: "real option"
  take_profit :: "real option"
  quantity :: int
  entry_date :: nat
  exit_date :: "nat option"
  pnl :: "real option"
  trade_type :: string
  status :: string
  notes_text :: "string option"
  original_quantity :: "int option"

text \<open>
  The table is the list of its rows in insertion order, with the counter that
  \<^verbatim>\<open>AUTOINCREMENT\<close> keeps (the largest id handed out so far). The program never deletes
  a row. Failures of the storage engine itself are not modelled.
\<close>

record database =
  rows :: "position list"
  seq :: nat

text \<open>\<^verbatim>\<open>SELECT ... FROM portfolio WHERE id = ?\<close>\<close>

definition select_by_id :: "database \<Rightarrow> nat \<Rightarrow> position list" where
  "select_by_id db i = filter (\<lambda>r. row_id r = i) (rows db)"

text \<open>
  \<^verbatim>\<open>UPDATE portfolio SET ... WHERE id = ?\<close>: the right-hand sides of \<^verbatim>\<open>SET\<close> read the
  row as it was before the statement, which is what \<open>f\<close> receives.
\<close>

definition update_by_id :: "database \<Rightarrow> nat \<Rightarrow> (position \<Rightarrow> position) \<Rightarrow> database" where
  "update_by_id db i f =
     db\<lparr>rows := map (\<lambda>r. if row_id r = i then f r else r) (rows db)\<rparr>"

text \<open>\<^verbatim>\<open>INSERT INTO portfolio (...)\<close>: the id is the next value of the counter.\<close>

definition insert_row :: "database \<Rightarrow> position \<Rightarrow> database" where
  "insert_row db r =
     db\<lparr>rows := rows db @ [r\<lparr>row_id := Suc (seq db)\<rparr>], seq := Suc (seq db)\<rparr>"

subsection \<open>PortfolioTracker: closing positions\<close>

text \<open>
  What an operation reports to the user (the message box it ends with); the ledger state
  it leaves is returned beside it.
\<close>

datatype outcome =
    PositionClosed real
  | FailedToClosePosition
  | PartiallyClosed int real
  | PartialCloseError
  | TradeSaved string int
  | ValidationError
  | InputError
  | NoRiskMetrics
  | NotConfirmed

text \<open>
  \<^verbatim>\<open>execute_close_position\<close>. \<^verbatim>\<open>db.execute_query(...)[0]\<close> raises IndexError when no
  row has the id; the handler reports the failure and nothing is written. The query reads
  \<^verbatim>\<open>entry_price\<close> and \<^verbatim>\<open>quantity\<close> only: neither \<^verbatim>\<open>status\<close> nor
  \<^verbatim>\<open>trade_type\<close> is consulted.
\<close>

definition execute_close_position ::
  "database \<Rightarrow> nat \<Rightarrow> real \<Rightarrow> nat \<Rightarrow> outcome \<times> database" where
  "execute_close_position db position_id exit_price' now =
     (case select_by_id db position_id of
        [] \<Rightarrow> (FailedToClosePosition, db)
      | r # _ \<Rightarrow>
          (let pnl' = (exit_price' - entry_price r) * real_of_int (quantity r)
           in (PositionClosed pnl',
               update_by_id db position_id
                 (\<lambda>x. x\<lparr>exit_price := Some exit_price', exit_date := Some now,
                         pnl := Some pnl', status := ''Closed''\<rparr>))))"

text \<open>
  \<^verbatim>\<open>execute_partial_close\<close>. When nothing remains it calls
  \<^verbatim>\<open>self.execute_close_position\<close>, which handles its own exceptions, and then reports its
  own success message.
\<close>

definition execute_partial_close ::
  "database \<Rightarrow> nat \<Rightarrow> int \<Rightarrow> real \<Rightarrow> nat \<Rightarrow> outcome \<times> database" where
  "execute_partial_close db position_id close_quantity exit_price' now =
     (case select_by_id db position_id of
        [] \<Rightarrow> (PartialCloseError, db)
      | r # _ \<Rightarrow>
          (let total_quantity = quantity r;
               remaining_quantity = total_quantity - close_quantity;
               pnl' = (if trade_type r = ''Long''
                       then (exit_price' - entry_price r) * real_of_int close_quantity
                       else (entry_price r - exit_price') * real_of_int close_quantity)
           in if remaining_quantity > 0 then
                (let db1 = update_by_id db position_id
                             (\<lambda>x. x\<lparr>quantity := remaining_quantity,
                                     original_quantity :=
                                       Some (case original_quantity x of
                                               None \<Rightarrow> quantity x | Some oq \<Rightarrow> oq)\<rparr>);
                     db2 = insert_row db1
                             \<lparr>row_id = 0, symbol = symbol r, entry_price = entry_price r,
                              exit_price = Some exit_price', stop_loss = stop_loss r,
                              take_profit = take_profit r, quantity = close_quantity,
                              entry_date = entry_date r, exit_date = Some now,
                              pnl = Some pnl', trade_type = trade_type r,
                              status = ''Closed'', notes_text = None,
                              original_quantity = Some close_quantity\<rparr>
                 in (PartiallyClosed close_quantity pnl', db2))
              else
                (PartiallyClosed close_quantity pnl',
                 snd (execute_close_position db position_id exit_price' now))))"

subsection \<open>PositionCalculator: opening positions\<close>



subsection \<open>Sequences of partial closes on one position\<close>

text \<open>
  A run of \<^verbatim>\<open>execute_partial_close\<close> calls on the same id, each with its quantity, exit
  price and clock reading; only the ledger state is threaded through.
\<close>

fun partial_closes :: "database \<Rightarrow> nat \<Rightarrow> (int \<times> real \<times> nat) list \<Rightarrow> database" where
  "partial_closes db p [] = db"
| "partial_closes db p ((q, price, now) # ops) =
     partial_closes (snd (execute_partial_close db p q price now)) p ops"

text \<open>Whether some call of the run takes the reducing branch (\<^verbatim>\<open>remaining_quantity > 0\<close>).\<close>

fun reduced :: "database \<Rightarrow> nat \<Rightarrow> (int \<times> real \<times> nat) list \<Rightarrow> bool" where
  "reduced db p [] = False"
| "reduced db p ((q, price, now) # ops) =
     ((case select_by_id db p of [] \<Rightarrow> False | r # _ \<Rightarrow> quantity r - q > 0)
      \<or> reduced (snd (execute_partial_close db p q price now)) p ops)"

text \<open>
  The integrity constraints of the table: \<^verbatim>\<open>id\<close> is the primary key, and no id exceeds
  the \<^verbatim>\<open>AUTOINCREMENT\<close> counter.
\<close>

definition table_ok :: "database \<Rightarrow> bool" where
  "table_ok db \<longleftrightarrow>
     distinct (map row_id (rows db)) \<and> list_all (\<lambda>r. row_id r \<le> seq db) (rows db)"

text \<open>The quantity of position \<open>p\<close> that is still open.\<close>

definition remaining_open_quantity :: "database \<Rightarrow> nat \<Rightarrow> int" where
  "remaining_open_quantity db p =
     sum_list (map quantity (filter (\<lambda>r. status r = ''Open'') (select_by_id db p)))"

text \<open>
  The table stores no link from a settled lot to the position it was split from. Relative
  to the counter value \<open>seq0\<close> at the start of a run on \<open>p\<close>, the Closed lots derived from
  \<open>p\<close> are the rows inserted since then, and the row of \<open>p\<close> itself once it is Closed.
\<close>

definition closed_lots :: "nat \<Rightarrow> database \<Rightarrow> nat \<Rightarrow> position list" where
  "closed_lots seq0 db p =
     filter (\<lambda>r. status r = ''Closed'' \<and> (row_id r = p \<or> seq0 < row_id r)) (rows db)"

text \<open>
  What every state of a run on \<open>p\<close> satisfies, for a run that starts with the counter at
  \<open>seq0\<close> and \<open>q0\<close> shares: \<open>r\<close> is the row of \<open>p\<close>, it is Open or Closed, every row
  inserted since the start is Closed, the quantities of \<open>r\<close> and of the inserted rows add
  up to \<open>q0\<close>, and \<^verbatim>\<open>original_quantity\<close> is either \<open>q0\<close> or still \<^verbatim>\<open>NULL\<close> with
  the quantity untouched.
\<close>

definition lot_invariant :: "nat \<Rightarrow> nat \<Rightarrow> int \<Rightarrow> database \<Rightarrow> position \<Rightarrow> bool" where
  "lot_invariant seq0 p q0 db r \<longleftrightarrow>
     p \<le> seq0 \<and> seq0 \<le> seq db \<and> select_by_id db p = [r]
     \<and> (status r = ''Open'' \<or> status r = ''Closed'')
     \<and> list_all (\<lambda>x. status x = ''Closed'') (filter (\<lambda>x. seq0 < row_id x) (rows db))
     \<and> quantity r + sum_list (map quantity (filter (\<lambda>x. seq0 < row_id x) (rows db))) = q0
     \<and> (original_quantity r = Some q0 \<or> original_quantity r = None \<and> quantity r = q0)"

subsection \<open>MarketDataManager.calculate_atr and the ATR stop loss\<close>

text \<open>
  One row of the price history that \<^verbatim>\<open>get_historical_data\<close> returned (an empty frame
  when the download failed): the columns the ATR reads.
\<close>

record bar =
  high :: real
  low :: real
  close :: real

text \<open>
  The \<^verbatim>\<open>TR\<close> column. \<^verbatim>\<open>Close.shift(1)\<close> is NaN in the first row, and the row-wise
  \<^verbatim>\<open>max(axis=1)\<close> skips NaN, so the first true range is \<^verbatim>\<open>High - Low\<close>. The first
  argument is the previous close, if there is one.
\<close>

fun true_ranges :: "real option \<Rightarrow> bar list \<Rightarrow> real list" where
  "true_ranges _ [] = []"
| "true_ranges None (b # bs) = (high b - low b) # true_ranges (Some (close b)) bs"
| "true_ranges (Some pc) (b # bs) =
     max (high b - low b) (max \<bar>high b - pc\<bar> \<bar>low b - pc\<bar>)
       # true_ranges (Some (close b)) bs"

text \<open>
  \<^verbatim>\<open>calculate_atr\<close> on the history \<open>data\<close>: \<^verbatim>\<open>None\<close> for an empty frame, else the
  last entry of \<^verbatim>\<open>TR.rolling(window=period).mean()\<close>, which pandas leaves NaN until the
  window holds \<open>period\<close> rows.
\<close>

definition calculate_atr :: "bar list \<Rightarrow> nat \<Rightarrow> py_float option" where
  "calculate_atr data period =
     (if data = [] then None
      else (let tr = true_ranges None data
            in Some (if period = 0 \<or> length tr < period then NaN
                     else Num (sum_list (drop (length tr - period) tr) / real period))))"

text \<open>
  What \<^verbatim>\<open>calculate_atr_stop_loss\<close> does to the form: the text of the ATR label, the
  stop-loss field (\<open>None\<close> when it is left as it was), and whether the error box is shown.
\<close>

datatype atr_label = CurrentATR py_float | ATRNotAvailable

record atr_form =
  atr_value_label :: "atr_label option"
  stop_loss_var :: "py_float option"
  error_shown :: bool

text \<open>
  \<open>symbol'\<close> is the symbol field upper-cased and \<open>data\<close> the history fetched for it;
  \<open>entry_in\<close> and \<open>multiplier_in\<close> are \<^verbatim>\<open>float(...)\<close> of their fields, \<open>None\<close> when
  that raises. The only test on the ATR is \<^verbatim>\<open>atr is not None\<close>. The label and the
  stop-loss field receive their numbers through \<^verbatim>\<open>:.2f\<close>.
\<close>

definition calculate_atr_stop_loss ::
  "string \<Rightarrow> bar list \<Rightarrow> string \<Rightarrow> real option \<Rightarrow> real option \<Rightarrow> string \<Rightarrow> atr_form" where
  "calculate_atr_stop_loss symbol' data stop_loss_type entry_in multiplier_in trade_type' =
     (if symbol' = [] then
        \<lparr>atr_value_label = None, stop_loss_var = None, error_shown = False\<rparr>
      else
        (case calculate_atr data 14 of
           None \<Rightarrow>
             \<lparr>atr_value_label = Some ATRNotAvailable, stop_loss_var = None,
              error_shown = False\<rparr>
         | Some atr \<Rightarrow>
             if stop_loss_type = ''ATR'' then
               (case (entry_in, multiplier_in) of
                  (Some current_price, Some multiplier) \<Rightarrow>
                    (let stop_loss' =
                           (if trade_type' = ''Long''
                            then pf_sub (Num current_price) (pf_mul atr (Num multiplier))
                            else pf_add (Num current_price) (pf_mul atr (Num multiplier)))
                     in \<lparr>atr_value_label = Some (CurrentATR (fixed2 atr)),
                         stop_loss_var = Some (fixed2 stop_loss'),
                         error_shown = False\<rparr>)
                | _ \<Rightarrow>
                    \<lparr>atr_value_label = Some (CurrentATR (fixed2 atr)), stop_loss_var = None,
                     error_shown = True\<rparr>)
             else
               \<lparr>atr_value_label = Some (CurrentATR (fixed2 atr)), stop_loss_var = None,
                error_shown = False\<rparr>))"

subsection \<open>StatisticsTab.calculate_statistics\<close>

text \<open>The profit factor is a float that may be \<^verbatim>\<open>float('inf')\<close>.\<close>

datatype profit_factor_value = Infinity | Finite real

text \<open>The values the method writes into its labels.\<close>

record statistics =
  total_trades :: nat
  winning_trades :: nat
  losing_trades :: nat
  win_rate :: real
  total_pnl :: real
  profit_factor :: profit_factor_value
  avg_win :: real
  avg_loss :: real
  largest_win :: real
  largest_loss :: real
  avg_rr :: real
  avg_hold_time :: real

text \<open>
  The method returns early, writing nothing, when no trade is Closed; any exception ends
  in the error box, again with no label written.
\<close>

datatype statistics_result =
    NoClosedTrades
  | StatisticsError
  | Statistics statistics

text \<open>
  The reward:risk ratio one trade contributes to \<^verbatim>\<open>rr_ratios\<close>, if any:
  \<^verbatim>\<open>if entry and stop and take\<close> is false for a \<^verbatim>\<open>NULL\<close> and for 0.0.
\<close>

definition rr_ratio :: "position \<Rightarrow> real option" where
  "rr_ratio t =
     (case (stop_loss t, take_profit t) of
        (Some stop, Some tp) \<Rightarrow>
          if entry_price t \<noteq> 0 \<and> stop \<noteq> 0 \<and> tp \<noteq> 0 then
            (let risk = \<bar>entry_price t - stop\<bar>; reward = \<bar>tp - entry_price t\<bar>
             in if risk > 0 then Some (reward / risk) else None)
          else None
      | _ \<Rightarrow> None)"

text \<open>\<^verbatim>\<open>sum(xs) / len(xs) if xs else 0\<close>\<close>

definition mean_or_zero :: "real list \<Rightarrow> real" where
  "mean_or_zero xs = (if xs \<noteq> [] then sum_list xs / real (length xs) else 0)"

text \<open>\<^verbatim>\<open>max(xs) if xs else 0\<close>\<close>

definition max_or_zero :: "real list \<Rightarrow> real" where
  "max_or_zero xs = (case xs of [] \<Rightarrow> 0 | x # ys \<Rightarrow> fold max ys x)"

text \<open>
  \<^verbatim>\<open>SELECT ... FROM portfolio WHERE status = 'Closed'\<close> is \<open>closed_trades\<close>.
  \<^verbatim>\<open>calculate_statistics\<close> over the table. A Closed row whose \<^verbatim>\<open>pnl\<close> is \<^verbatim>\<open>NULL\<close>
  makes \<^verbatim>\<open>p > 0\<close> raise TypeError, and one whose \<^verbatim>\<open>exit_date\<close> is \<^verbatim>\<open>NULL\<close> makes
  \<^verbatim>\<open>strptime\<close> raise; both reach the handler.
\<close>

definition closed_trades :: "database \<Rightarrow> position list" where
  "closed_trades db = filter (\<lambda>r. status r = ''Closed'') (rows db)"

definition calculate_statistics :: "database \<Rightarrow> statistics_result" where
  "calculate_statistics db =
     (let trades = closed_trades db
      in if trades = [] then NoClosedTrades
         else
           (case (those (map pnl trades), those (map exit_date trades)) of
              (Some pnls, Some exit_dates) \<Rightarrow>
                (let profits = filter (\<lambda>p. p > 0) pnls;
                     losses = map abs (filter (\<lambda>l. l < 0) pnls);
                     total = length trades;
                     winning = length profits;
                     losing = length losses;
                     hold_times = map2 (\<lambda>x e. real_of_int (int x - int e))
                                    exit_dates (map entry_date trades)
                 in Statistics
                      \<lparr>total_trades = total,
                       winning_trades = winning,
                       losing_trades = losing,
                       win_rate = (if total > 0
                                   then real winning / real total * 100 else 0),
                       total_pnl = sum_list pnls,
                       profit_factor = (if losses \<noteq> [] \<and> sum_list losses > 0
                                        then Finite (sum_list profits / sum_list losses)
                                        else Infinity),
                       avg_win = mean_or_zero profits,
                       avg_loss = mean_or_zero losses,
                       largest_win = max_or_zero profits,
                       largest_loss = max_or_zero losses,
                       avg_rr = mean_or_zero (List.map_filter rr_ratio trades),
                       avg_hold_time = mean_or_zero hold_times\<rparr>)
            | _ \<Rightarrow> StatisticsError))"

text \<open>
  The vocabulary of the statistics: a settled trade wins with a positive \<^verbatim>\<open>pnl\<close>, loses
  with a negative one, and is flat with a \<^verbatim>\<open>pnl\<close> of exactly 0; a settled row is
  complete when its \<^verbatim>\<open>pnl\<close> and \<^verbatim>\<open>exit_date\<close> are set, as both closing operations
  leave it.
\<close>

definition winning :: "position \<Rightarrow> bool" where
  "winning t = (case pnl t of Some p \<Rightarrow> 0 < p | None \<Rightarrow> False)"

definition losing :: "position \<Rightarrow> bool" where
  "losing t = (case pnl t of Some p \<Rightarrow> p < 0 | None \<Rightarrow> False)"

definition flat :: "position \<Rightarrow> bool" where
  "flat t = (pnl t = Some 0)"

definition settled :: "position \<Rightarrow> bool" where
  "settled t = (pnl t \<noteq> None \<and> exit_date t \<noteq> None)"

subsection \<open>Concrete ledgers and price histories\<close>

text \<open>
  An open Short position (entry 100, ten shares) alone in the table, the fourth scenario
  of the specification.
\<close>

definition short_position :: position where
  "short_position =
     \<lparr>row_id = 1, symbol = ''AAPL'', entry_price = 100, exit_price = None,
      stop_loss = Some 105, take_profit = Some 90, quantity = 10, entry_date = 0,
      exit_date = None, pnl = None, trade_type = ''Short'', status = ''Open'',
      notes_text = None, original_quantity = None\<rparr>"

definition short_ledger :: database where
  "short_ledger = \<lparr>rows = [short_position], seq = 1\<rparr>"

text \<open>
  An open Long position (entry 150, forty shares), the second and third scenarios of the
  specification.
\<close>

definition long_position :: position where
  "long_position =
     \<lparr>row_id = 1, symbol = ''AAPL'', entry_price = 150, exit_price = None,
      stop_loss = Some 145, take_profit = Some 160, quantity = 40, entry_date = 0,
      exit_date = None, pnl = None, trade_type = ''Long'', status = ''Open'',
      notes_text = None, original_quantity = None\<rparr>"

definition long_ledger :: database where
  "long_ledger = \<lparr>rows = [long_position], seq = 1\<rparr>"

text \<open>A settled trade with id \<open>i\<close> and profit or loss \<open>p\<close>.\<close>

definition closed_row :: "nat \<Rightarrow> real \<Rightarrow> position" where
  "closed_row i p =
     \<lparr>row_id = i, symbol = ''AAPL'', entry_price = 150, exit_price = Some 155,
      stop_loss = Some 145, take_profit = Some 160, quantity = 10, entry_date = 0,
      exit_date = Some 3600, pnl = Some p, trade_type = ''Long'', status = ''Closed'',
      notes_text = None, original_quantity = None\<rparr>"

definition flat_ledger :: database where
  "flat_ledger = \<lparr>rows = [closed_row 1 0, closed_row 2 0], seq = 2\<rparr>"

definition mixed_ledger :: database where
  "mixed_ledger =
     \<lparr>rows = [closed_row 1 100, closed_row 2 (- 50), closed_row 3 0, closed_row 4 0],
      seq = 4\<rparr>"

text \<open>Three daily bars: a history shorter than the 14-bar window.\<close>

definition three_bars :: "bar list" where
  "three_bars = [\<lparr>high = 152, low = 148, close = 150\<rparr>,
                 \<lparr>high = 153, low = 149, close = 151\<rparr>,
                 \<lparr>high = 154, low = 150, close = 152\<rparr>]"

section \<open>Properties\<close>

subsection \<open>Rounding to a double\<close>

text \<open>
  The definitions of the float model evaluate on numerals by these equations.
\<close>

lemmas double_eval =
  to_double_def dbl_def binade_def pow2_def round_half_even_def compute_bitlen Let_def

text \<open>
  \<open>to_double\<close> never gives NaN, keeps the sign, and returns a finite double within half
  a unit in the last place of the exact value.
\<close>

lemma pow2_pos: "0 < pow2 k"
  by (simp add: pow2_def)

lemma round_half_even_nonneg: "0 \<le> z \<Longrightarrow> 0 \<le> round_half_even z"
  by (auto simp add: round_half_even_def Let_def)

lemma round_half_even_error: "\<bar>real_of_int (round_half_even z) - z\<bar> \<le> 1 / 2"
  unfolding round_half_even_def Let_def by (auto; linarith)

lemma to_double_not_NaN: "to_double x \<noteq> NaN"
  by (simp add: to_double_def Let_def)

lemma to_double_zero: "to_double 0 = Num 0"
  by (simp add: to_double_def)

lemma to_double_nonneg:
  assumes "0 \<le> x"
  shows "to_double x = PInf \<or> (\<exists>y\<ge>0. to_double x = Num y)"
proof (cases "x = 0")
  case True
  then show ?thesis by (simp add: to_double_def)
next
  case False
  with assms have pos: "0 < x" by simp
  define u where "u = pow2 (binade x - 52)"
  have u: "0 < u" unfolding u_def by (rule pow2_pos)
  have "0 \<le> x / u" using pos u by simp
  then have "0 \<le> round_half_even (x / u)" by (rule round_half_even_nonneg)
  then have "0 \<le> real_of_int (round_half_even (x / u)) * u" using u by simp
  then show ?thesis using pos False
    by (auto simp add: to_double_def Let_def u_def)
qed

lemma to_double_error:
  assumes "to_double x = Num y"
  shows "\<bar>y - x\<bar> \<le> pow2 (binade x - 52) / 2"
proof (cases "x = 0")
  case True
  with assms show ?thesis using pow2_pos [of "binade x - 52"] by (simp add: to_double_def)
next
  case False
  define u where "u = pow2 (binade x - 52)"
  have u: "0 < u" unfolding u_def by (rule pow2_pos)
  have y: "y = real_of_int (round_half_even (x / u)) * u"
    using assms False by (simp add: to_double_def Let_def u_def split: if_splits)
  have "y - x = (real_of_int (round_half_even (x / u)) - x / u) * u"
    using u by (simp add: y algebra_simps)
  then have "\<bar>y - x\<bar> = \<bar>real_of_int (round_half_even (x / u)) - x / u\<bar> * u"
    using u by (simp add: abs_mult)
  also have "\<dots> \<le> 1 / 2 * u"
    using round_half_even_error [of "x / u"] u by (intro mult_right_mono) simp_all
  finally show ?thesis by (simp add: u_def)
qed

text \<open>
  From the smallest normal double on, \<open>binade x\<close> is the exponent \<open>e\<close> with
  \<open>2\<^sup>e \<le> \<bar>x\<bar> < 2\<^sup>e\<^sup>+\<^sup>1\<close>.
\<close>

lemma pow2_nonneg_exp: "0 \<le> k \<Longrightarrow> pow2 k = 2 ^ nat k"
  by (simp add: pow2_def)

lemma binade_bounds_large:
  assumes "1 \<le> \<bar>x\<bar>"
  shows "pow2 (binade x) \<le> \<bar>x\<bar> \<and> \<bar>x\<bar> < pow2 (binade x + 1)"
proof -
  define n where "n = \<lfloor>\<bar>x\<bar>\<rfloor>"
  have n: "1 \<le> n" using assms by (simp add: n_def le_floor_iff)
  then have npos: "0 < n" by simp
  define k where "k = bitlen n"
  have k: "1 \<le> k" using npos by (simp add: k_def bitlen_alt_def)
  have b: "binade x = k - 1"
    using assms k by (simp add: binade_def n_def k_def)
  from bitlen_bounds [OF npos] have lo: "2 ^ nat (k - 1) \<le> n" and hi: "n < 2 ^ nat k"
    by (simp_all add: k_def)
  have p1: "pow2 (k - 1) = 2 ^ nat (k - 1)" and p2: "pow2 k = 2 ^ nat k"
    using k by (simp_all add: pow2_nonneg_exp)
  have "real_of_int n \<le> \<bar>x\<bar>" by (simp add: n_def)
  moreover have "real_of_int (2 ^ nat (k - 1)) \<le> real_of_int n"
    using lo by (simp only: of_int_le_iff)
  moreover have "real_of_int (2 ^ nat (k - 1)) = 2 ^ nat (k - 1)" by simp
  ultimately have 1: "pow2 (k - 1) \<le> \<bar>x\<bar>" unfolding p1 by linarith
  have "\<bar>x\<bar> < real_of_int n + 1" unfolding n_def by linarith
  moreover have "n + 1 \<le> 2 ^ nat k" using hi by simp
  then have "real_of_int (n + 1) \<le> real_of_int (2 ^ nat k)"
    by (simp only: of_int_le_iff)
  moreover have "real_of_int (2 ^ nat k) = 2 ^ nat k" by simp
  moreover have "real_of_int (n + 1) = real_of_int n + 1" by simp
  ultimately have 2: "\<bar>x\<bar> < pow2 k" unfolding p2 by linarith
  from 1 2 b show ?thesis by simp
qed

lemma binade_bounds_small:
  assumes "\<bar>x\<bar> < 1" and "pow2 (- 1022) \<le> \<bar>x\<bar>"
  shows "pow2 (binade x) \<le> \<bar>x\<bar> \<and> \<bar>x\<bar> < pow2 (binade x + 1)"
proof -
  have xpos: "0 < \<bar>x\<bar>" using assms(2) pow2_pos [of "- 1022"] by linarith
  define c where "c = \<lceil>1 / \<bar>x\<bar>\<rceil>"
  define m where "m = c - 1"
  have inv: "1 < 1 / \<bar>x\<bar>" using assms(1) xpos by simp
  then have c2: "2 \<le> c" unfolding c_def by linarith
  then have mpos: "0 < m" by (simp add: m_def)
  define k where "k = bitlen m"
  have k: "1 \<le> k" using mpos by (simp add: k_def bitlen_alt_def)
  from bitlen_bounds [OF mpos] have lo: "2 ^ nat (k - 1) \<le> m" and hi: "m < 2 ^ nat k"
    by (simp_all add: k_def)
  have cle: "1 / \<bar>x\<bar> \<le> real_of_int c" by (simp add: c_def)
  have clt: "real_of_int m < 1 / \<bar>x\<bar>" unfolding m_def c_def by linarith
  \<comment> \<open>the exponent is not below the normal range\<close>
  have "1 / \<bar>x\<bar> \<le> 2 ^ 1022"
  proof -
    have "1 / 2 ^ 1022 \<le> \<bar>x\<bar>" using assms(2) by (simp add: pow2_def)
    then have "1 \<le> \<bar>x\<bar> * 2 ^ 1022" by (simp add: field_simps)
    then show ?thesis using xpos by (simp add: field_simps)
  qed
  then have "c \<le> 2 ^ 1022" unfolding c_def by (simp add: ceiling_le_iff)
  then have "m < 2 ^ 1022" by (simp add: m_def)
  then have kle: "k \<le> 1022"
    unfolding k_def by (simp add: bitlen_le_iff_power)
  have b: "binade x = - k"
    using assms(1) kle by (simp add: binade_def c_def m_def k_def)
  have "c \<le> 2 ^ nat k" using hi by (simp add: m_def)
  then have "real_of_int c \<le> real_of_int (2 ^ nat k)" by (simp only: of_int_le_iff)
  moreover have "real_of_int (2 ^ nat k) = 2 ^ nat k" by simp
  ultimately have "1 / \<bar>x\<bar> \<le> 2 ^ nat k" using cle by linarith
  then have "1 \<le> \<bar>x\<bar> * 2 ^ nat k" using xpos by (simp add: field_simps)
  then have 1: "1 / 2 ^ nat k \<le> \<bar>x\<bar>" by (simp add: field_simps)
  have "real_of_int (2 ^ nat (k - 1)) \<le> real_of_int m"
    using lo by (simp only: of_int_le_iff)
  moreover have "real_of_int (2 ^ nat (k - 1)) = 2 ^ nat (k - 1)" by simp
  ultimately have "2 ^ nat (k - 1) < 1 / \<bar>x\<bar>" using clt by linarith
  then have "\<bar>x\<bar> * 2 ^ nat (k - 1) < 1" using xpos by (simp add: field_simps)
  then have 2: "\<bar>x\<bar> < 1 / 2 ^ nat (k - 1)" by (simp add: field_simps)
  have p1: "pow2 (- k) = 1 / 2 ^ nat k" using k by (simp add: pow2_def)
  have p2: "pow2 (- k + 1) = 1 / 2 ^ nat (k - 1)"
  proof (cases "k = 1")
    case True
    then show ?thesis by (simp add: pow2_def)
  next
    case False
    with k have "- k + 1 < 0" by simp
    moreover have "nat (- (- k + 1)) = nat (k - 1)" by simp
    ultimately show ?thesis by (simp add: pow2_def)
  qed
  from 1 2 b p1 p2 show ?thesis by simp
qed

lemma binade_bounds:
  assumes "pow2 (- 1022) \<le> \<bar>x\<bar>"
  shows "pow2 (binade x) \<le> \<bar>x\<bar> \<and> \<bar>x\<bar> < pow2 (binade x + 1)"
  using binade_bounds_large [of x] binade_bounds_small [of x] assms by (cases "1 \<le> \<bar>x\<bar>") auto

subsection \<open>Position sizing\<close>

lemma py_int_nonneg: "0 \<le> x \<Longrightarrow> py_int x = \<lfloor>x\<rfloor>"
  by (simp add: py_int_def)

lemma risk_budget_nonneg:
  assumes "0 \<le> account_balance rm" and "0 \<le> max_risk_per_trade rm"
  shows "risk_budget rm = PInf \<or> (\<exists>a\<ge>0. risk_budget rm = Num a)"
  unfolding risk_budget_def using to_double_nonneg [of "account_balance rm * max_risk_per_trade rm"] assms
  by simp

lemma price_distance_nonneg:
  "price_distance a b = PInf \<or> (\<exists>d\<ge>0. price_distance a b = Num d)"
  unfolding price_distance_def
  by (cases "to_double (a - b)") (simp_all add: to_double_not_NaN)

lemma quotient_nonneg:
  assumes "0 \<le> a" and "0 < d"
  shows "to_double (a / d) = PInf \<or> (\<exists>q\<ge>0. to_double (a / d) = Num q)"
  using assms by (intro to_double_nonneg) simp

lemma calculate_position_size_alt:
  "calculate_position_size rm entry stop =
     (if price_distance entry stop = Num 0 then 0
      else (case pf_div (risk_budget rm) (price_distance entry stop) of
              Some (Num q) \<Rightarrow> py_int q
            | _ \<Rightarrow> 0))"
  by (simp add: calculate_position_size_def risk_budget_def price_distance_def Let_def)

text \<open>
  C6, as the code has it. With a non-negative balance and risk fraction (the program
  passes positive ones only), \<open>calculate_position_size\<close> returns 0 when the stop distance
  \<^verbatim>\<open>abs(entry_price - stop_loss)\<close> is 0. Otherwise the quotient
  \<^verbatim>\<open>risk_amount / risk_per_share\<close> is computed in double arithmetic: when it is finite
  it is not negative and the result is its floor, and when it is infinite or NaN the
  result is 0. In every case the result is a non-negative integer, and the function is
  total: no input makes it raise.
\<close>

theorem position_size_floor:
  assumes "0 \<le> account_balance rm" and "0 \<le> max_risk_per_trade rm"
  shows "(price_distance entry stop = Num 0 \<longrightarrow> calculate_position_size rm entry stop = 0)
       \<and> (price_distance entry stop \<noteq> Num 0 \<longrightarrow>
            (case pf_div (risk_budget rm) (price_distance entry stop) of
               Some (Num q) \<Rightarrow> 0 \<le> q \<and> calculate_position_size rm entry stop = \<lfloor>q\<rfloor>
             | _ \<Rightarrow> calculate_position_size rm entry stop = 0))
       \<and> 0 \<le> calculate_position_size rm entry stop"
proof (cases "price_distance entry stop = Num 0")
  case True
  then show ?thesis by (simp add: calculate_position_size_alt)
next
  case False
  note size = calculate_position_size_alt [of rm entry stop]
  from price_distance_nonneg [of entry stop] consider
      "price_distance entry stop = PInf"
    | d where "0 < d" "price_distance entry stop = Num d"
    using False by (auto simp add: less_le)
  then show ?thesis
  proof cases
    case 1
    from risk_budget_nonneg [OF assms] show ?thesis
      using 1 size by (auto simp add: py_int_def)
  next
    case (2 d)
    from risk_budget_nonneg [OF assms] consider
        "risk_budget rm = PInf" | a where "0 \<le> a" "risk_budget rm = Num a"
      by auto
    then show ?thesis
    proof cases
      case 1
      then show ?thesis using 2 size by (simp add: signed_inf_def pf_sign_def)
    next
      case (2 a)
      from quotient_nonneg [OF \<open>0 \<le> a\<close> \<open>0 < d\<close>] show ?thesis
        using 2 \<open>0 < d\<close> \<open>price_distance entry stop = Num d\<close> size
        by (auto simp add: py_int_nonneg)
    qed
  qed
qed

text \<open>
  The first scenario of the specification: balance 10000, the default risk fraction (the
  double written 0.02), entry 150 and stop 145 give 40 shares; entry equal to stop gives
  0.
\<close>

theorem position_size_floor_witness:
  "0 \<le> account_balance \<lparr>account_balance = 10000, max_risk_per_trade = dbl 0.02\<rparr>
   \<and> 0 \<le> max_risk_per_trade \<lparr>account_balance = 10000, max_risk_per_trade = dbl 0.02\<rparr>
   \<and> pf_div (risk_budget \<lparr>account_balance = 10000, max_risk_per_trade = dbl 0.02\<rparr>)
         (price_distance 150 145) = Some (Num 40)
   \<and> calculate_position_size \<lparr>account_balance = 10000, max_risk_per_trade = dbl 0.02\<rparr> 150 145 = 40
   \<and> price_distance 150 150 = Num 0
   \<and> calculate_position_size \<lparr>account_balance = 10000, max_risk_per_trade = dbl 0.02\<rparr> 150 150 = 0"
proof -
  have r: "0 \<le> dbl 0.02" by (simp add: double_eval)
  have b: "risk_budget \<lparr>account_balance = 10000, max_risk_per_trade = dbl 0.02\<rparr> = Num 200"
    by (simp add: risk_budget_def double_eval)
  have d: "price_distance 150 145 = Num 5"
    by (simp add: price_distance_def double_eval)
  have q: "pf_div (Num 200) (Num 5) = Some (Num 40)"
    by (simp add: double_eval)
  have z: "price_distance 150 150 = Num 0"
    by (simp add: price_distance_def to_double_def)
  show ?thesis
    using position_size_floor
            [of "\<lparr>account_balance = 10000, max_risk_per_trade = dbl 0.02\<rparr>" 150 145]
          position_size_floor
            [of "\<lparr>account_balance = 10000, max_risk_per_trade = dbl 0.02\<rparr>" 150 150]
          r b d q z
    by simp
qed

text \<open>
  C6 as stated, with the quotient taken exactly, fails: for the prices 150.3 and 150.1
  the claimed floor of 10000 * 0.02 / 0.2 is 1000, and the code, which subtracts the two
  doubles and divides in double arithmetic, returns 999.
\<close>

theorem position_size_below_exact_floor:
  "calculate_position_size \<lparr>account_balance = 10000, max_risk_per_trade = dbl 0.02\<rparr>
       (dbl 150.3) (dbl 150.1) = 999
   \<and> \<lfloor>10000 * 0.02 / \<bar>150.3 - 150.1 :: real\<bar>\<rfloor> = 1000"
proof -
  have b: "risk_budget \<lparr>account_balance = 10000, max_risk_per_trade = dbl 0.02\<rparr> = Num 200"
    by (simp add: risk_budget_def double_eval)
  have e: "dbl 150.3 = 2644105562475725 / 2 ^ 44"
    by (simp add: double_eval)
  have s: "dbl 150.1 = 5281174250533683 / 2 ^ 45"
    by (simp add: double_eval)
  have d: "price_distance (dbl 150.3) (dbl 150.1) = Num (7036874417767 / 2 ^ 45)"
    unfolding e s by (simp add: price_distance_def double_eval)
  have q: "pf_div (Num 200) (Num (7036874417767 / 2 ^ 45))
             = Some (Num (4398046511103625 / 2 ^ 42))"
    by (simp add: double_eval)
  have i: "py_int (4398046511103625 / 2 ^ 42) = 999"
    by (simp add: py_int_def)
  have "calculate_position_size \<lparr>account_balance = 10000, max_risk_per_trade = dbl 0.02\<rparr>
          (dbl 150.3) (dbl 150.1) = 999"
    unfolding calculate_position_size_alt b d q using i by simp
  moreover have "\<lfloor>10000 * 0.02 / \<bar>150.3 - 150.1 :: real\<bar>\<rfloor> = 1000"
    by simp
  ultimately show ?thesis by simp
qed

text \<open>
  The rounding of the product matters as well. At a risk fraction of 3 per cent (the
  double written 0.03, which is below 0.03) the product with 10000 rounds to 300, and
  entry 150 with stop 149 gives 300 shares, where the exact quotient of the same doubles
  has floor 299.
\<close>

lemma size_at_three_per_cent:
  "calculate_position_size \<lparr>account_balance = 10000, max_risk_per_trade = dbl 0.03\<rparr> 150 149
     = 300
   \<and> \<lfloor>10000 * dbl 0.03 / \<bar>150 - 149 :: real\<bar>\<rfloor> = 299"
proof -
  have b: "risk_budget \<lparr>account_balance = 10000, max_risk_per_trade = dbl 0.03\<rparr> = Num 300"
    by (simp add: risk_budget_def double_eval)
  have d: "price_distance 150 149 = Num 1"
    by (simp add: price_distance_def double_eval)
  have q: "pf_div (Num 300) (Num 1) = Some (Num 300)"
    by (simp add: double_eval)
  have "calculate_position_size \<lparr>account_balance = 10000, max_risk_per_trade = dbl 0.03\<rparr>
          150 149 = 300"
    unfolding calculate_position_size_alt b d q by (simp add: py_int_def)
  moreover have "\<lfloor>10000 * dbl 0.03 / \<bar>150 - 149 :: real\<bar>\<rfloor> = 299"
    by (simp add: double_eval)
  ultimately show ?thesis by simp
qed

subsection \<open>Trade validation\<close>

text \<open>
  C8. With the stop equal to the entry, \<open>validate_trade\<close> rejects, whatever the take
  profit, the balance and the risk fraction: the division by the zero risk is caught by
  the handler, whose message is the result; no ratio is produced and nothing escapes.
\<close>

theorem validate_trade_stop_equals_entry:
  "validate_trade rm entry entry target = (False, ErrorValidatingTrade)"
  by (simp add: validate_trade_def to_double_def)

lemma validate_trade_alt:
  "validate_trade rm entry stop target =
     (case pf_div (price_distance target entry) (price_distance entry stop) of
        None \<Rightarrow> (False, ErrorValidatingTrade)
      | Some ratio \<Rightarrow>
          if pf_less ratio (Num 2) then (False, RatioBelowMinimum)
          else if pf_less (risk_budget rm) (price_distance entry stop)
               then (False, RiskExceedsMaximum (risk_budget rm))
               else (True, ValidationSuccessful))"
  unfolding validate_trade_def risk_budget_def price_distance_def Let_def
  by (simp split: option.splits)

text \<open>
  C3, as the code has it. \<open>validate_trade\<close> has no quantity: the risk it compares is the
  per-share risk \<^verbatim>\<open>abs(entry_price - stop_loss)\<close>. In double arithmetic, it rejects with
  the budget message exactly when the reward:risk ratio can be computed (the risk is not
  zero), the ratio is not below 2 and the budget
  \<^verbatim>\<open>account_balance * max_risk_per_trade\<close> is less than the per-share risk; and every
  trade whose per-share risk exceeds that budget is rejected, whatever its ratio.
\<close>

theorem validate_trade_budget_reason:
  "(validate_trade rm entry stop target = (False, RiskExceedsMaximum (risk_budget rm))
     \<longleftrightarrow> (\<exists>ratio. pf_div (price_distance target entry) (price_distance entry stop) = Some ratio
                  \<and> \<not> pf_less ratio (Num 2)
                  \<and> pf_less (risk_budget rm) (price_distance entry stop)))
   \<and> (pf_less (risk_budget rm) (price_distance entry stop)
        \<longrightarrow> fst (validate_trade rm entry stop target) = False)"
  by (auto simp add: validate_trade_alt split: option.splits)

text \<open>A 3:1 trade (entry 100, stop 90, take profit 130) against a budget of 2.\<close>

theorem validate_trade_budget_reason_witness:
  "pf_div (price_distance 130 100) (price_distance 100 90) = Some (Num 3)
   \<and> \<not> pf_less (Num 3) (Num 2)
   \<and> pf_less (risk_budget \<lparr>account_balance = 100, max_risk_per_trade = dbl 0.02\<rparr>)
        (price_distance 100 90)
   \<and> validate_trade \<lparr>account_balance = 100, max_risk_per_trade = dbl 0.02\<rparr> 100 90 130
        = (False, RiskExceedsMaximum (Num 2))
   \<and> fst (validate_trade \<lparr>account_balance = 100, max_risk_per_trade = dbl 0.02\<rparr> 100 90 130)
        = False"
proof -
  have b: "risk_budget \<lparr>account_balance = 100, max_risk_per_trade = dbl 0.02\<rparr> = Num 2"
    by (simp add: risk_budget_def double_eval)
  have d: "price_distance 100 90 = Num 10" "price_distance 130 100 = Num 30"
    by (simp_all add: price_distance_def double_eval)
  have q: "pf_div (Num 30) (Num 10) = Some (Num 3)"
    by (simp add: double_eval)
  show ?thesis
    using validate_trade_budget_reason
            [of "\<lparr>account_balance = 100, max_risk_per_trade = dbl 0.02\<rparr>" 100 90 130]
    unfolding b d q by simp
qed

text \<open>
  C3 as stated fails: the ratio is checked first, so a trade over budget whose ratio is
  below 2 is rejected with the ratio message, not the budget message.
\<close>

theorem validate_trade_ratio_reason_first:
  "account_balance \<lparr>account_balance = 100, max_risk_per_trade = dbl 0.02\<rparr>
        * max_risk_per_trade \<lparr>account_balance = 100, max_risk_per_trade = dbl 0.02\<rparr>
     < \<bar>100 - 90 :: real\<bar>
   \<and> pf_less (risk_budget \<lparr>account_balance = 100, max_risk_per_trade = dbl 0.02\<rparr>)
        (price_distance 100 90)
   \<and> validate_trade \<lparr>account_balance = 100, max_risk_per_trade = dbl 0.02\<rparr> 100 90 105
        = (False, RatioBelowMinimum)
   \<and> validate_trade \<lparr>account_balance = 100, max_risk_per_trade = dbl 0.02\<rparr> 100 90 105
        \<noteq> (False, RiskExceedsMaximum
                     (risk_budget \<lparr>account_balance = 100, max_risk_per_trade = dbl 0.02\<rparr>))"
proof -
  have x: "account_balance \<lparr>account_balance = 100, max_risk_per_trade = dbl 0.02\<rparr>
             * max_risk_per_trade \<lparr>account_balance = 100, max_risk_per_trade = dbl 0.02\<rparr>
           < \<bar>100 - 90 :: real\<bar>"
    by (simp add: double_eval)
  have b: "risk_budget \<lparr>account_balance = 100, max_risk_per_trade = dbl 0.02\<rparr> = Num 2"
    by (simp add: risk_budget_def double_eval)
  have d: "price_distance 100 90 = Num 10" "price_distance 105 100 = Num 5"
    by (simp_all add: price_distance_def double_eval)
  have q: "pf_div (Num 5) (Num 10) = Some (Num (1 / 2))"
    by (simp add: double_eval)
  have "validate_trade \<lparr>account_balance = 100, max_risk_per_trade = dbl 0.02\<rparr> 100 90 105
          = (False, RatioBelowMinimum)"
    unfolding validate_trade_alt b d q by simp
  then show ?thesis using x unfolding b d by simp
qed

text \<open>
  Two trades at the thresholds. With entry 50.1, stop 40 and take profit 70.3 the ratio
  computed from the doubles is just below 2, and the ratio message is the result. With a
  balance of 10000 at 3 per cent, entry 400, stop 100 and take profit 1000 the budget
  rounds to 300, the risk of 300 does not exceed it, and the trade is admitted.
\<close>

lemma ratio_just_below_two:
  "validate_trade \<lparr>account_balance = 100, max_risk_per_trade = dbl 0.02\<rparr>
       (dbl 50.1) 40 (dbl 70.3) = (False, RatioBelowMinimum)"
proof -
  have e: "dbl 50.1 = 7050948166601933 / 2 ^ 47" and t: "dbl 70.3 = 4946922715689779 / 2 ^ 46"
    by (simp_all add: double_eval)
  have d: "price_distance (dbl 50.1) 40 = Num (1421448632388813 / 2 ^ 47)"
    unfolding e by (simp add: price_distance_def double_eval)
  have w: "price_distance (dbl 70.3) (dbl 50.1) = Num (2842897264777625 / 2 ^ 47)"
    unfolding e t by (simp add: price_distance_def double_eval)
  have q: "pf_div (Num (2842897264777625 / 2 ^ 47)) (Num (1421448632388813 / 2 ^ 47))
             = Some (Num (9007199254740989 / 2 ^ 52))"
    by (simp add: double_eval)
  show ?thesis
    unfolding validate_trade_alt d w q by simp
qed

lemma risk_equal_to_budget_admitted:
  "validate_trade \<lparr>account_balance = 10000, max_risk_per_trade = dbl 0.03\<rparr> 400 100 1000
     = (True, ValidationSuccessful)"
proof -
  have b: "risk_budget \<lparr>account_balance = 10000, max_risk_per_trade = dbl 0.03\<rparr> = Num 300"
    by (simp add: risk_budget_def double_eval)
  have d: "price_distance 400 100 = Num 300" "price_distance 1000 400 = Num 600"
    by (simp_all add: price_distance_def double_eval)
  have q: "pf_div (Num 600) (Num 300) = Some (Num 2)"
    by (simp add: double_eval)
  show ?thesis
    unfolding validate_trade_alt b d q by simp
qed

subsection \<open>Closing positions\<close>

text \<open>
  C1, at the Short position of \<open>short_ledger\<close> closed at 95. \<open>execute_close_position\<close>
  never reads \<^verbatim>\<open>trade_type\<close> and always applies the Long formula: it records a
  \<^verbatim>\<open>pnl\<close> of -50 where the Short formula (entry - exit) * quantity gives 50. Its sibling
  \<open>execute_partial_close\<close> does branch on \<^verbatim>\<open>trade_type\<close>: closing 4 of the 10 shares
  at the same price records 20 for the settled lot.
\<close>

theorem full_close_short_pnl:
  "map pnl (rows (snd (execute_close_position short_ledger 1 95 60))) = [Some (- 50)]
   \<and> (entry_price short_position - 95) * real_of_int (quantity short_position) = 50
   \<and> map pnl (rows (snd (execute_partial_close short_ledger 1 4 95 60))) = [None, Some 20]
   \<and> (entry_price short_position - 95) * real_of_int 4 = 20"
  by (simp add: execute_close_position_def execute_partial_close_def select_by_id_def
        update_by_id_def insert_row_def short_ledger_def short_position_def Let_def)

text \<open>
  C5. When the row the query returns for \<open>p\<close> has quantity \<open>quantity r\<close>,
  \<open>execute_partial_close\<close> with that quantity leaves the ledger exactly as
  \<open>execute_close_position\<close> at the same price and time does; no row is added and no
  quantity changes, so no zero-quantity remainder appears.
\<close>

theorem partial_close_all_is_full_close:
  assumes "select_by_id db p = r # rs"
  shows "snd (execute_partial_close db p (quantity r) price now)
           = snd (execute_close_position db p price now)
       \<and> length (rows (snd (execute_partial_close db p (quantity r) price now)))
           = length (rows db)
       \<and> map quantity (rows (snd (execute_partial_close db p (quantity r) price now)))
           = map quantity (rows db)"
  using assms
  by (simp add: execute_partial_close_def execute_close_position_def update_by_id_def
        Let_def comp_def)

text \<open>Closing all forty shares of the Long position of \<open>long_ledger\<close> at 148.\<close>

theorem partial_close_all_is_full_close_witness:
  "select_by_id long_ledger 1 = long_position # []
   \<and> snd (execute_partial_close long_ledger 1 (quantity long_position) 148 60)
       = snd (execute_close_position long_ledger 1 148 60)
   \<and> map quantity (rows (snd (execute_partial_close long_ledger 1 (quantity long_position) 148 60)))
       = [40]"
proof -
  have sel: "select_by_id long_ledger 1 = long_position # []"
    by (simp add: select_by_id_def long_ledger_def long_position_def)
  have q: "map quantity (rows long_ledger) = [40]"
    by (simp add: long_ledger_def long_position_def)
  show ?thesis
    using partial_close_all_is_full_close [OF sel, of 148 60] sel unfolding q by blast
qed

subsection \<open>Quantity conservation under partial closes\<close>

lemma select_update:
  assumes "\<And>x. row_id (f x) = row_id x"
  shows "select_by_id (update_by_id db p f) p = map f (select_by_id db p)"
  unfolding select_by_id_def update_by_id_def
  by (induction "rows db" arbitrary: db) (auto simp add: assms filter_map comp_def intro!: filter_cong)

lemma newer_update:
  assumes "\<And>x. row_id (f x) = row_id x" and "p \<le> seq0"
  shows "filter (\<lambda>x. seq0 < row_id x) (rows (update_by_id db p f))
           = filter (\<lambda>x. seq0 < row_id x) (rows db)"
proof -
  have "filter (\<lambda>x. seq0 < row_id x) (map (\<lambda>r. if row_id r = p then f r else r) xs)
          = filter (\<lambda>x. seq0 < row_id x) xs" for xs
    using assms by (induction xs) auto
  then show ?thesis by (simp add: update_by_id_def)
qed

lemma seq_update: "seq (update_by_id db p f) = seq db"
  by (simp add: update_by_id_def)

lemma select_insert:
  "p \<le> seq db \<Longrightarrow> select_by_id (insert_row db n) p = select_by_id db p"
  by (simp add: select_by_id_def insert_row_def)

lemma newer_insert:
  "seq0 \<le> seq db \<Longrightarrow>
     filter (\<lambda>x. seq0 < row_id x) (rows (insert_row db n))
       = filter (\<lambda>x. seq0 < row_id x) (rows db) @ [n\<lparr>row_id := Suc (seq db)\<rparr>]"
  by (simp add: insert_row_def)

lemma seq_insert: "seq (insert_row db n) = Suc (seq db)"
  by (simp add: insert_row_def)

lemma partial_close_step:
  assumes inv: "lot_invariant seq0 p q0 db r"
  shows "\<exists>r'. lot_invariant seq0 p q0 (snd (execute_partial_close db p q price now)) r'
            \<and> original_quantity r' = (if 0 < quantity r - q then Some q0
                                        else original_quantity r)"
proof (cases "0 < quantity r - q")
  case True
  define f where "f = (\<lambda>x::position. x\<lparr>quantity := quantity r - q,
                         original_quantity :=
                           Some (case original_quantity x of
                                   None \<Rightarrow> quantity x | Some oq \<Rightarrow> oq)\<rparr>)"
  define n where "n = \<lparr>row_id = 0, symbol = symbol r, entry_price = entry_price r,
                              exit_price = Some price, stop_loss = stop_loss r,
                              take_profit = take_profit r, quantity = q,
                              entry_date = entry_date r, exit_date = Some now,
                              pnl = Some (if trade_type r = ''Long''
                       then (price - entry_price r) * real_of_int q
                       else (entry_price r - price) * real_of_int q), trade_type = trade_type r,
                              status = ''Closed'', notes_text = None,
                              original_quantity = Some q\<rparr>"
  have fid: "\<And>x. row_id (f x) = row_id x" by (simp add: f_def)
  have sel: "select_by_id db p = [r]" and le: "p \<le> seq0" "seq0 \<le> seq db"
    using inv by (simp_all add: lot_invariant_def)
  have db': "snd (execute_partial_close db p q price now) = insert_row (update_by_id db p f) n"
    using True sel by (simp add: execute_partial_close_def Let_def f_def n_def)
  have sel': "select_by_id (insert_row (update_by_id db p f) n) p = [f r]"
    using le sel by (simp add: select_insert seq_update select_update [OF fid])
  have new': "filter (\<lambda>x. seq0 < row_id x) (rows (insert_row (update_by_id db p f) n))
                = filter (\<lambda>x. seq0 < row_id x) (rows db) @ [n\<lparr>row_id := Suc (seq db)\<rparr>]"
    using le by (simp add: newer_insert seq_update newer_update [OF fid])
  have oq: "original_quantity (f r) = Some q0"
    using inv by (auto simp add: lot_invariant_def f_def)
  have "lot_invariant seq0 p q0 (insert_row (update_by_id db p f) n) (f r)"
    unfolding lot_invariant_def sel' new'
    using inv oq by (simp add: lot_invariant_def seq_insert seq_update) (simp add: f_def n_def)
  with oq True db' show ?thesis by auto
next
  case False
  define g where "g = (\<lambda>x::position. x\<lparr>exit_price := Some price, exit_date := Some now,
                         pnl := Some ((price - entry_price r) * real_of_int (quantity r)),
                         status := ''Closed''\<rparr>)"
  have gid: "\<And>x. row_id (g x) = row_id x" by (simp add: g_def)
  have sel: "select_by_id db p = [r]" and le: "p \<le> seq0" "seq0 \<le> seq db"
    using inv by (simp_all add: lot_invariant_def)
  have db': "snd (execute_partial_close db p q price now) = update_by_id db p g"
    using False sel
    by (simp add: execute_partial_close_def execute_close_position_def Let_def g_def)
  have sel': "select_by_id (update_by_id db p g) p = [g r]"
    using sel by (simp add: select_update [OF gid])
  have new': "filter (\<lambda>x. seq0 < row_id x) (rows (update_by_id db p g))
                = filter (\<lambda>x. seq0 < row_id x) (rows db)"
    using le by (simp add: newer_update [OF gid])
  have "lot_invariant seq0 p q0 (update_by_id db p g) (g r)"
    unfolding lot_invariant_def sel' new'
    using inv by (simp add: lot_invariant_def seq_update) (simp add: g_def)
  moreover have "original_quantity (g r) = original_quantity r" by (simp add: g_def)
  ultimately show ?thesis using False db' by auto
qed

lemma partial_closes_run:
  "lot_invariant seq0 p q0 db r \<Longrightarrow>
     \<exists>r'. lot_invariant seq0 p q0 (partial_closes db p ops) r'
         \<and> original_quantity r' = (if reduced db p ops then Some q0 else original_quantity r)"
proof (induction ops arbitrary: db r)
  case Nil
  then show ?case by auto
next
  case (Cons op ops)
  obtain q price now where op: "op = (q, price, now)" by (cases op) auto
  from partial_close_step [OF Cons.prems, of q price now] obtain r1 where
    r1: "lot_invariant seq0 p q0 (snd (execute_partial_close db p q price now)) r1"
        "original_quantity r1 = (if 0 < quantity r - q then Some q0 else original_quantity r)"
    by blast
  from Cons.IH [OF r1(1)] obtain r' where
    r': "lot_invariant seq0 p q0 (partial_closes (snd (execute_partial_close db p q price now)) p ops) r'"
        "original_quantity r' = (if reduced (snd (execute_partial_close db p q price now)) p ops
                                  then Some q0 else original_quantity r1)"
    by blast
  have sel: "select_by_id db p = [r]" using Cons.prems by (simp add: lot_invariant_def)
  show ?case
    using r' r1(2) sel unfolding op by auto
qed

lemma sum_list_filter_disjoint:
  "\<forall>x\<in>set xs. \<not> (A x \<and> B x) \<Longrightarrow>
     sum_list (map f (filter (\<lambda>x. A x \<or> B x) xs))
       = sum_list (map f (filter A xs)) + (sum_list (map f (filter B xs)) :: int)"
  by (induction xs) auto

lemma invariant_conserves:
  assumes inv: "lot_invariant seq0 p q0 db r"
  shows "remaining_open_quantity db p + sum_list (map quantity (closed_lots seq0 db p)) = q0"
proof -
  have sel: "select_by_id db p = [r]" and le: "p \<le> seq0"
    and st: "status r = ''Open'' \<or> status r = ''Closed''"
    and cl: "list_all (\<lambda>x. status x = ''Closed'') (filter (\<lambda>x. seq0 < row_id x) (rows db))"
    and tot: "quantity r + sum_list (map quantity (filter (\<lambda>x. seq0 < row_id x) (rows db))) = q0"
    using inv by (simp_all add: lot_invariant_def)
  have split: "closed_lots seq0 db p
      = filter (\<lambda>x. (status x = ''Closed'' \<and> row_id x = p) \<or> (status x = ''Closed'' \<and> seq0 < row_id x)) (rows db)"
    unfolding closed_lots_def by (rule filter_cong) auto
  have disj: "\<forall>x\<in>set (rows db). \<not> ((status x = ''Closed'' \<and> row_id x = p) \<and> (status x = ''Closed'' \<and> seq0 < row_id x))"
    using le by auto
  have own: "filter (\<lambda>x. status x = ''Closed'' \<and> row_id x = p) (rows db)
               = filter (\<lambda>x. status x = ''Closed'') [r]"
proof -
    have "filter (\<lambda>x. status x = ''Closed'' \<and> row_id x = p) (rows db)
            = filter (\<lambda>x. status x = ''Closed'') (filter (\<lambda>x. row_id x = p) (rows db))"
      by (simp add: conj_commute)
    also have "\<dots> = filter (\<lambda>x. status x = ''Closed'') [r]"
      using sel by (simp only: select_by_id_def)
    finally show ?thesis .
  qed
  have new: "filter (\<lambda>x. status x = ''Closed'' \<and> seq0 < row_id x) (rows db)
               = filter (\<lambda>x. seq0 < row_id x) (rows db)"
    using cl by (auto simp add: list_all_iff intro!: filter_cong)
  have "sum_list (map quantity (closed_lots seq0 db p))
          = sum_list (map quantity (filter (\<lambda>x. status x = ''Closed'') [r]))
            + sum_list (map quantity (filter (\<lambda>x. seq0 < row_id x) (rows db)))"
    unfolding split sum_list_filter_disjoint [OF disj] own new ..
  moreover have "remaining_open_quantity db p
          = sum_list (map quantity (filter (\<lambda>x. status x = ''Open'') [r]))"
    by (simp add: remaining_open_quantity_def sel)
  ultimately show ?thesis using st tot by auto
qed

lemma filter_key_distinct:
  "distinct (map f xs) \<Longrightarrow> r \<in> set xs \<Longrightarrow> filter (\<lambda>x. f x = f r) xs = [r]"
proof (induction xs)
  case Nil
  then show ?case by simp
next
  case (Cons a xs)
  show ?case
  proof (cases "a = r")
    case True
    have "f r \<notin> f ` set xs" using Cons.prems(1) True by simp
    then have "\<forall>x\<in>set xs. f x \<noteq> f r" by (metis imageI)
    then have "filter (\<lambda>x. f x = f r) xs = []" by (simp add: filter_empty_conv)
    with True show ?thesis by simp
  next
    case False
    then have in_xs: "r \<in> set xs" using Cons.prems by simp
    then have "f r \<in> f ` set xs" by (rule imageI)
    then have "f a \<noteq> f r" using Cons.prems(1) by auto
    then show ?thesis using Cons in_xs by simp
  qed
qed

lemma initial_invariant:
  assumes "table_ok db0" "r0 \<in> set (rows db0)" "status r0 = ''Open''"
          "original_quantity r0 = None"
  shows "lot_invariant (seq db0) (row_id r0) (quantity r0) db0 r0"
proof -
  have d: "distinct (map row_id (rows db0))" and b: "\<forall>x\<in>set (rows db0). row_id x \<le> seq db0"
    using assms(1) by (simp_all add: table_ok_def list_all_iff)
  have "filter (\<lambda>x. seq db0 < row_id x) (rows db0) = []"
    using b by (auto simp add: filter_empty_conv)
  moreover have "select_by_id db0 (row_id r0) = [r0]"
    unfolding select_by_id_def using d assms(2) by (rule filter_key_distinct)
  ultimately show ?thesis
    using assms b by (simp add: lot_invariant_def)
qed

text \<open>
  C4. Take a table that satisfies its integrity constraints and an Open row \<open>r0\<close> of it
  that has never been reduced (\<^verbatim>\<open>original_quantity\<close> is \<^verbatim>\<open>NULL\<close>). After any run of
  \<open>execute_partial_close\<close> calls on that row, with any quantities and prices, the
  quantity still open plus the quantities of the Closed lots derived from the row is the
  quantity the row started with; and the row's \<^verbatim>\<open>original_quantity\<close> is that starting
  quantity as soon as one call of the run has reduced the row, and \<^verbatim>\<open>NULL\<close> before. As
  the run is arbitrary, this holds after every step of it.
\<close>

theorem quantity_conservation:
  assumes "table_ok db0" and "r0 \<in> set (rows db0)" and "status r0 = ''Open''"
      and "original_quantity r0 = None"
  shows "remaining_open_quantity (partial_closes db0 (row_id r0) ops) (row_id r0)
           + sum_list (map quantity
               (closed_lots (seq db0) (partial_closes db0 (row_id r0) ops) (row_id r0)))
           = quantity r0
       \<and> map original_quantity (select_by_id (partial_closes db0 (row_id r0) ops) (row_id r0))
           = [if reduced db0 (row_id r0) ops then Some (quantity r0) else None]"
proof -
  from partial_closes_run [OF initial_invariant [OF assms], of ops] obtain r' where
    r': "lot_invariant (seq db0) (row_id r0) (quantity r0) (partial_closes db0 (row_id r0) ops) r'"
        "original_quantity r' = (if reduced db0 (row_id r0) ops then Some (quantity r0) else None)"
    using assms(4) by auto
  have "select_by_id (partial_closes db0 (row_id r0) ops) (row_id r0) = [r']"
    using r'(1) by (simp add: lot_invariant_def)
  with invariant_conserves [OF r'(1)] r'(2) show ?thesis by simp
qed

text \<open>
  The second and third scenarios of the specification: forty shares, fifteen closed at
  155, then the remaining twenty-five at 148.
\<close>

theorem quantity_conservation_witness:
  "table_ok long_ledger \<and> long_position \<in> set (rows long_ledger)
   \<and> status long_position = ''Open'' \<and> original_quantity long_position = None
   \<and> remaining_open_quantity (partial_closes long_ledger 1 [(15, 155, 60)]) 1 = 25
   \<and> sum_list (map quantity (closed_lots 1 (partial_closes long_ledger 1 [(15, 155, 60)]) 1)) = 15
   \<and> map original_quantity (select_by_id (partial_closes long_ledger 1 [(15, 155, 60)]) 1)
        = [Some 40]
   \<and> remaining_open_quantity (partial_closes long_ledger 1 [(15, 155, 60), (25, 148, 120)]) 1 = 0
   \<and> sum_list (map quantity
         (closed_lots 1 (partial_closes long_ledger 1 [(15, 155, 60), (25, 148, 120)]) 1)) = 40"
proof -
  have h1: "table_ok long_ledger"
    by (simp add: table_ok_def long_ledger_def long_position_def)
  have h2: "long_position \<in> set (rows long_ledger)"
    by (simp add: long_ledger_def)
  have h3: "status long_position = ''Open''"
    by (simp add: long_position_def)
  have h4: "original_quantity long_position = None"
    by (simp add: long_position_def)
  have i: "row_id long_position = 1" "seq long_ledger = 1" "quantity long_position = 40"
    by (simp_all add: long_position_def long_ledger_def)
  have r1: "remaining_open_quantity (partial_closes long_ledger 1 [(15, 155, 60)]) 1 = 25"
    by (simp add: remaining_open_quantity_def execute_partial_close_def select_by_id_def
          update_by_id_def insert_row_def long_ledger_def long_position_def Let_def)
  have r2: "remaining_open_quantity
              (partial_closes long_ledger 1 [(15, 155, 60), (25, 148, 120)]) 1 = 0"
    by (simp add: remaining_open_quantity_def execute_partial_close_def
          execute_close_position_def select_by_id_def
          update_by_id_def insert_row_def long_ledger_def long_position_def Let_def)
  have red: "reduced long_ledger 1 [(15, 155, 60)]"
    by (simp add: select_by_id_def long_ledger_def long_position_def)
  note c1 = quantity_conservation [OF h1 h2 h3 h4, of "[(15, 155, 60)]", unfolded i]
  note c2 = quantity_conservation [OF h1 h2 h3 h4, of "[(15, 155, 60), (25, 148, 120)]",
              unfolded i]
  show ?thesis
    using h1 h2 h3 h4 c1 c2 r1 r2 red by simp
qed

subsection \<open>Opening positions\<close>




subsection \<open>The ATR stop loss\<close>

lemma length_true_ranges: "length (true_ranges pc bs) = length bs"
  by (induction pc bs rule: true_ranges.induct) simp_all

lemma calculate_atr_short_history:
  "data \<noteq> [] \<Longrightarrow> length data < period \<Longrightarrow> calculate_atr data period = Some NaN"
  by (simp add: calculate_atr_def length_true_ranges)

text \<open>
  C7, on a history of three bars. \<open>calculate_atr\<close> returns NaN, not \<^verbatim>\<open>None\<close>; the test
  \<^verbatim>\<open>atr is not None\<close> lets it through, so the label shows it as the current ATR and the
  stop-loss field is set to NaN. Only an empty history is reported as not available.
\<close>

theorem atr_partial_window_is_nan:
  "length three_bars < 14
   \<and> calculate_atr three_bars 14 = Some NaN
   \<and> calculate_atr_stop_loss ''AAPL'' three_bars ''ATR'' (Some 152) (Some 2) ''Long''
       = \<lparr>atr_value_label = Some (CurrentATR NaN), stop_loss_var = Some NaN,
          error_shown = False\<rparr>
   \<and> calculate_atr_stop_loss ''AAPL'' [] ''ATR'' (Some 152) (Some 2) ''Long''
       = \<lparr>atr_value_label = Some ATRNotAvailable, stop_loss_var = None,
          error_shown = False\<rparr>"
  by (simp add: calculate_atr_stop_loss_def calculate_atr_def three_bars_def)

subsection \<open>Statistics\<close>

lemma those_map_settled:
  "list_all (\<lambda>x. f x \<noteq> None) xs \<Longrightarrow> those (map f xs) = Some (map (\<lambda>x. the (f x)) xs)"
  by (induction xs) auto

lemma settled_pnls:
  "list_all settled ts \<Longrightarrow> those (map pnl ts) = Some (map (\<lambda>t. the (pnl t)) ts)"
  by (rule those_map_settled) (simp add: list_all_iff settled_def)

lemma settled_exit_dates:
  "list_all settled ts \<Longrightarrow> those (map exit_date ts) = Some (map (\<lambda>t. the (exit_date t)) ts)"
  by (rule those_map_settled) (simp add: list_all_iff settled_def)

lemma filter_profits:
  "list_all settled ts \<Longrightarrow>
     filter (\<lambda>p. 0 < p) (map (\<lambda>t. the (pnl t)) ts) = map (\<lambda>t. the (pnl t)) (filter winning ts)"
  by (induction ts) (auto simp add: winning_def settled_def)

lemma filter_losses:
  "list_all settled ts \<Longrightarrow>
     filter (\<lambda>p. p < 0) (map (\<lambda>t. the (pnl t)) ts) = map (\<lambda>t. the (pnl t)) (filter losing ts)"
  by (induction ts) (auto simp add: losing_def settled_def)

lemma win_loss_flat_partition:
  "list_all settled ts \<Longrightarrow>
     length ts = length (filter winning ts) + length (filter losing ts) + length (filter flat ts)"
  by (induction ts) (auto simp add: winning_def losing_def flat_def settled_def)

lemma calculate_statistics_settled:
  assumes "closed_trades db \<noteq> []" and "list_all settled (closed_trades db)"
  shows "\<exists>s. calculate_statistics db = Statistics s
           \<and> total_trades s = length (closed_trades db)
           \<and> winning_trades s = length (filter winning (closed_trades db))
           \<and> losing_trades s = length (filter losing (closed_trades db))
           \<and> win_rate s = real (winning_trades s) / real (total_trades s) * 100
           \<and> profit_factor s =
               (if filter losing (closed_trades db) \<noteq> []
                   \<and> 0 < sum_list (map (\<lambda>t. \<bar>the (pnl t)\<bar>) (filter losing (closed_trades db)))
                then Finite (sum_list (map (\<lambda>t. the (pnl t)) (filter winning (closed_trades db)))
                      / sum_list (map (\<lambda>t. \<bar>the (pnl t)\<bar>) (filter losing (closed_trades db))))
                else Infinity)"
  using assms
  by (simp add: calculate_statistics_def Let_def settled_pnls settled_exit_dates
        filter_profits filter_losses comp_def)

text \<open>
  C10. For a table with at least one Closed row, all of them settled,
  \<open>calculate_statistics\<close> returns statistics in which \<open>total_trades\<close> counts every
  Closed row, \<open>winning_trades\<close> those with a positive and \<open>losing_trades\<close> those with a
  negative \<^verbatim>\<open>pnl\<close>, so that a trade with a \<^verbatim>\<open>pnl\<close> of exactly 0 is in the total and in
  neither of the two; and \<open>win_rate\<close> is \<open>winning_trades / total_trades * 100\<close>.
\<close>

theorem win_rate_counts_flat_trades:
  assumes "closed_trades db \<noteq> []" and "list_all settled (closed_trades db)"
  shows "\<exists>s. calculate_statistics db = Statistics s
           \<and> total_trades s = length (closed_trades db)
           \<and> winning_trades s = length (filter winning (closed_trades db))
           \<and> losing_trades s = length (filter losing (closed_trades db))
           \<and> total_trades s = winning_trades s + losing_trades s
                                + length (filter flat (closed_trades db))
           \<and> win_rate s = real (winning_trades s) / real (total_trades s) * 100"
  using calculate_statistics_settled [OF assms] win_loss_flat_partition [OF assms(2)]
  by auto

text \<open>One win, one loss and two flat trades: a win rate of 25 per cent.\<close>

theorem win_rate_counts_flat_trades_witness:
  "closed_trades mixed_ledger \<noteq> [] \<and> list_all settled (closed_trades mixed_ledger)
   \<and> (\<exists>s. calculate_statistics mixed_ledger = Statistics s
         \<and> total_trades s = 4 \<and> winning_trades s = 1 \<and> losing_trades s = 1
         \<and> win_rate s = 25)"
proof -
  have a: "closed_trades mixed_ledger \<noteq> []"
    by (simp add: closed_trades_def mixed_ledger_def closed_row_def)
  have b: "list_all settled (closed_trades mixed_ledger)"
    by (simp add: closed_trades_def mixed_ledger_def closed_row_def settled_def)
  have n: "length (closed_trades mixed_ledger) = 4"
    by (simp add: closed_trades_def mixed_ledger_def closed_row_def)
  have w: "length (filter winning (closed_trades mixed_ledger)) = 1"
    by (simp add: closed_trades_def mixed_ledger_def closed_row_def winning_def)
  have l: "length (filter losing (closed_trades mixed_ledger)) = 1"
    by (simp add: closed_trades_def mixed_ledger_def closed_row_def losing_def)
  from win_rate_counts_flat_trades [OF a b] obtain s where
    s: "calculate_statistics mixed_ledger = Statistics s"
       "total_trades s = length (closed_trades mixed_ledger)"
       "winning_trades s = length (filter winning (closed_trades mixed_ledger))"
       "losing_trades s = length (filter losing (closed_trades mixed_ledger))"
       "win_rate s = real (winning_trades s) / real (total_trades s) * 100"
    by blast
  have "win_rate s = 25" using s n w by simp
  with s n w l a b show ?thesis by auto
qed

text \<open>
  C9, as the code has it. For a table with at least one Closed row, all of them settled
  and none of them losing, \<open>calculate_statistics\<close> returns statistics whose profit factor
  is infinite, also when no trade is winning.
\<close>

theorem profit_factor_without_losses:
  assumes "closed_trades db \<noteq> []" and "list_all settled (closed_trades db)"
      and "list_all (\<lambda>t. \<not> losing t) (closed_trades db)"
  shows "\<exists>s. calculate_statistics db = Statistics s \<and> profit_factor s = Infinity"
proof -
  have "filter losing (closed_trades db) = []"
    using assms(3) by (simp add: list_all_iff filter_empty_conv)
  with calculate_statistics_settled [OF assms(1,2)] show ?thesis by auto
qed

text \<open>Two flat trades: no win, no loss, an infinite profit factor.\<close>

theorem profit_factor_without_losses_witness:
  "closed_trades flat_ledger \<noteq> [] \<and> list_all settled (closed_trades flat_ledger)
   \<and> list_all (\<lambda>t. \<not> losing t) (closed_trades flat_ledger)
   \<and> filter winning (closed_trades flat_ledger) = []
   \<and> (\<exists>s. calculate_statistics flat_ledger = Statistics s \<and> profit_factor s = Infinity)"
proof -
  have a: "closed_trades flat_ledger \<noteq> []"
    by (simp add: closed_trades_def flat_ledger_def closed_row_def)
  have b: "list_all settled (closed_trades flat_ledger)"
    by (simp add: closed_trades_def flat_ledger_def closed_row_def settled_def)
  have c: "list_all (\<lambda>t. \<not> losing t) (closed_trades flat_ledger)"
    by (simp add: closed_trades_def flat_ledger_def closed_row_def losing_def)
  have d: "filter winning (closed_trades flat_ledger) = []"
    by (simp add: closed_trades_def flat_ledger_def closed_row_def winning_def)
  from profit_factor_without_losses [OF a b c] a b c d show ?thesis by blast
qed

text \<open>
  C9 as stated fails on the empty closed set, which has no losing trade: the method
  returns before computing anything, and there is no profit factor.
\<close>

theorem no_statistics_for_empty_closed_set:
  "filter losing (closed_trades \<lparr>rows = [], seq = 0\<rparr>) = []
   \<and> calculate_statistics \<lparr>rows = [], seq = 0\<rparr> = NoClosedTrades"
  by (simp add: calculate_statistics_def closed_trades_def)

end
